theory Spec2Isabelle
  imports Main
begin

section \<open>Strings\<close>

text \<open>
  The plugin (\<^verbatim>\<open>everything/__init__.py\<close>) works on Python \<^verbatim>\<open>str\<close> values. A Python
  string is modelled as a \<^typ>\<open>string\<close> in which every \<^typ>\<open>char\<close> stands for one code
  point below 256, so that \<^const>\<open>length\<close> is Python's \<^verbatim>\<open>len\<close> on such strings.
\<close>

definition is_decimal :: "char \<Rightarrow> bool" where
  "is_decimal c \<longleftrightarrow> c \<in> set ''0123456789''"

definition digit_val :: "char \<Rightarrow> nat" where
  "digit_val c = of_char c - 48"

text \<open>
  \<^verbatim>\<open>str.isdigit()\<close>: the string is not empty and every character is a digit. Below
  code point 256 the digits are \<^verbatim>\<open>0\<close> .. \<^verbatim>\<open>9\<close> and the superscripts U+00B2, U+00B3, U+00B9.
\<close>

definition isdigit_char :: "char \<Rightarrow> bool" where
  "isdigit_char c \<longleftrightarrow> is_decimal c \<or> (of_char c :: nat) \<in> {0xB2, 0xB3, 0xB9}"

definition isdigit :: "string \<Rightarrow> bool" where
  "isdigit s \<longleftrightarrow> s \<noteq> [] \<and> list_all isdigit_char s"

text \<open>\<^verbatim>\<open>s.split(c, 1)[1]\<close> for a string that contains \<^verbatim>\<open>c\<close>: what follows the first \<^verbatim>\<open>c\<close>.\<close>

definition after_first :: "char \<Rightarrow> string \<Rightarrow> string" where
  "after_first c s = tl (dropWhile (\<lambda>x. x \<noteq> c) s)"

text \<open>\<^verbatim>\<open>s.rsplit(c, 1)[1]\<close> for a string that contains \<^verbatim>\<open>c\<close>: what follows the last \<^verbatim>\<open>c\<close>.\<close>

definition after_last :: "char \<Rightarrow> string \<Rightarrow> string" where
  "after_last c s = rev (takeWhile (\<lambda>x. x \<noteq> c) (rev s))"

text \<open>\<^verbatim>\<open>s.split(c)\<close>: all the segments between occurrences of \<^verbatim>\<open>c\<close>, empty ones included.\<close>

fun split_on :: "char \<Rightarrow> string \<Rightarrow> string list" where
  "split_on c [] = [[]]"
| "split_on c (x # xs) =
     (if x = c then [] # split_on c xs
      else (x # hd (split_on c xs)) # tl (split_on c xs))"

text \<open>\<^verbatim>\<open>s.endswith(suf)\<close>.\<close>

definition endswith :: "string \<Rightarrow> string \<Rightarrow> bool" where
  "endswith s suf \<longleftrightarrow> length suf \<le> length s \<and> drop (length s - length suf) s = suf"

text \<open>
  \<^verbatim>\<open>str(n)\<close> for a natural number: its decimal digits, the last one first put in front
  of the digits already produced.
\<close>

definition digit_char :: "nat \<Rightarrow> char" where
  "digit_char d = char_of (of_char CHR ''0'' + d :: nat)"

fun decimal_digits :: "nat \<Rightarrow> string \<Rightarrow> string" where
  "decimal_digits n acc =
     (if n < 10 then digit_char n # acc
      else decimal_digits (n div 10) (digit_char (n mod 10) # acc))"

declare decimal_digits.simps [simp del]

definition py_str :: "nat \<Rightarrow> string" where
  "py_str n = decimal_digits n []"

text \<open>
  \<^verbatim>\<open>int(s)\<close> on a string, as CPython reads it in base 10: surrounding white space is
  skipped, one sign may come first, then decimal digits, where single underscores may
  stand between digits. Anything else is a \<^verbatim>\<open>ValueError\<close>, here \<^const>\<open>None\<close>. The limit on
  the number of digits that recent interpreters add is left out. The white space that
  is skipped is the tab, the line feed, the vertical tab, the form feed, the carriage
  return and the space, and above code point 127 the next line U+0085 and the no-break
  space U+00A0; the separators U+001C to U+001F are not skipped, although
  \<^verbatim>\<open>str.isspace\<close> holds of them.
\<close>

definition isspace_char :: "char \<Rightarrow> bool" where
  "isspace_char c \<longleftrightarrow> (of_char c :: nat) \<in> {9, 10, 11, 12, 13, 32, 133, 160}"

definition strip :: "string \<Rightarrow> string" where
  "strip s = rev (dropWhile isspace_char (rev (dropWhile isspace_char s)))"

fun parse_digits :: "nat \<Rightarrow> string \<Rightarrow> nat option" where
  "parse_digits acc [] = Some acc"
| "parse_digits acc [c] = (if is_decimal c then Some (10 * acc + digit_val c) else None)"
| "parse_digits acc (c # d # ds) =
     (if is_decimal c then parse_digits (10 * acc + digit_val c) (d # ds)
      else if c = CHR ''_'' \<and> is_decimal d then parse_digits (10 * acc + digit_val d) ds
      else None)"

definition parse_unsigned :: "string \<Rightarrow> nat option" where
  "parse_unsigned s =
     (case s of [] \<Rightarrow> None
      | c # cs \<Rightarrow> if is_decimal c then parse_digits (digit_val c) cs else None)"

definition py_int :: "string \<Rightarrow> int option" where
  "py_int s =
     (case strip s of [] \<Rightarrow> None
      | c # cs \<Rightarrow>
          if c = CHR ''-'' then map_option (\<lambda>n. - int n) (parse_unsigned cs)
          else if c = CHR ''+'' then map_option int (parse_unsigned cs)
          else map_option int (parse_unsigned (c # cs)))"

section \<open>Search results and the two backends\<close>

text \<open>
  One entry of a result list: the dictionary with the keys \<^verbatim>\<open>filename\<close>, \<^verbatim>\<open>path\<close>,
  \<^verbatim>\<open>size\<close> and \<^verbatim>\<open>date_modified\<close> that both backends are documented to return.
  \<^verbatim>\<open>date_modified\<close> may be \<^verbatim>\<open>None\<close>.
\<close>

record search_result =
  r_filename :: string
  r_path :: string
  r_size :: int
  r_date_modified :: "string option"

text \<open>Every exception of the source is a value; the string is its message.\<close>

datatype exn = Exception string | ValueError

type_synonym search_outcome = "exn + (int \<times> search_result list)"

text \<open>
  What the Everything DLL answers to one query. \<^verbatim>\<open>Everything_QueryW\<close> either fails, and
  \<^verbatim>\<open>Everything_GetLastError\<close> gives a code, or succeeds, and \<^verbatim>\<open>Everything_GetNumResults\<close>
  gives a count and the three getters answer for every index. A foreign call may also
  raise.
\<close>

record dll_entry =
  full_path_len :: nat
  full_path :: string
  result_size :: "nat option"
  result_date_modified :: "nat option"

datatype dll_reply =
    DllRaises string
  | DllQueryFailed nat
  | DllResults nat "nat \<Rightarrow> dll_entry"

text \<open>
  What the HTTP exchange of \<^verbatim>\<open>search_everything_api\<close> gives: one of the exceptions the
  function tells apart, or a decoded JSON object whose \<^verbatim>\<open>count\<close> and \<^verbatim>\<open>results\<close> keys
  may be absent.
\<close>

datatype http_reply =
    HTTPError nat string
  | URLError string
  | JSONDecodeError string
  | OtherError string
  | JsonBody "int option" "search_result list option"

text \<open>
  The surroundings of the plugin: the settings, the loaded DLL (\<^verbatim>\<open>everything_dll\<close>,
  \<^const>\<open>None\<close> when it is not loaded), the HTTP endpoint, and the library functions the code
  calls (\<^verbatim>\<open>urllib.parse.unquote\<close>, \<^verbatim>\<open>os.path.isdir\<close>, \<^verbatim>\<open>os.path.basename\<close>,
  \<^verbatim>\<open>os.path.dirname\<close>, \<^verbatim>\<open>fman.url.as_url\<close>, and the conversion of a Windows file time
  to an ISO string by \<^verbatim>\<open>datetime.fromtimestamp(...).isoformat()\<close>, which may raise).
\<close>

record env =
  mode :: string
  everything_dll :: "(string \<Rightarrow> dll_reply) option"
  urlopen :: "string \<Rightarrow> http_reply"
  unquote :: "string \<Rightarrow> string"
  isdir :: "string \<Rightarrow> bool"
  basename :: "string \<Rightarrow> string"
  dirname :: "string \<Rightarrow> string"
  as_url :: "string \<Rightarrow> string"
  filetime_isoformat :: "nat \<Rightarrow> string option"

text \<open>\<^verbatim>\<open>Error.get_error_message\<close>.\<close>

definition get_error_message :: "nat \<Rightarrow> string" where
  "get_error_message code =
     (if code = 0 then ''The operation completed successfully.''
      else if code = 1 then ''Failed to allocate memory for the search query.''
      else if code = 2 then ''IPC is not available.''
      else if code = 3 then ''Failed to register the search query window class.''
      else if code = 4 then ''Failed to create the search query window.''
      else if code = 5 then ''Failed to create the search query thread.''
      else if code = 6 then ''Invalid index. The index must be greater or equal to 0 and less than the number of visible results.''
      else if code = 7 then ''Invalid call.''
      else ''Unknown error code: '' @ py_str code)"

text \<open>The body of the loop of \<^verbatim>\<open>search_everything_dll\<close> for one index.\<close>

definition dll_result :: "env \<Rightarrow> dll_entry \<Rightarrow> search_result option" where
  "dll_result env e =
     (if full_path_len e \<noteq> 0 then
        let filename = full_path e;
            size = (case result_size e of Some v \<Rightarrow> int v | None \<Rightarrow> 0);
            date_modified =
              (case result_date_modified e of
                 Some winticks \<Rightarrow> if winticks > 0 then filetime_isoformat env winticks else None
               | None \<Rightarrow> None)
        in if filename \<noteq> [] then
             Some \<lparr>r_filename = basename env filename, r_path = filename,
                   r_size = size, r_date_modified = date_modified\<rparr>
           else None
      else None)"

definition search_everything_dll :: "env \<Rightarrow> string \<Rightarrow> search_outcome" where
  "search_everything_dll env query =
     (case everything_dll env of
        None \<Rightarrow> Inl (Exception (''Error searching Everything DLL: '' @ ''Everything DLL not loaded''))
      | Some dll \<Rightarrow>
          (case dll query of
             DllRaises msg \<Rightarrow> Inl (Exception (''Error searching Everything DLL: '' @ msg))
           | DllQueryFailed error_code \<Rightarrow>
               Inl (Exception (''Error searching Everything DLL: '' @
                      ''Everything DLL search error: '' @ get_error_message error_code))
           | DllResults count entry \<Rightarrow>
               Inr (int count,
                    List.map_filter (dll_result env) (map entry [0..<min count 100]))))"

definition search_everything_api :: "env \<Rightarrow> string \<Rightarrow> search_outcome" where
  "search_everything_api env query =
     (case urlopen env query of
        JsonBody count results \<Rightarrow>
          Inr (case count of Some c \<Rightarrow> c | None \<Rightarrow> 0,
               case results of Some rs \<Rightarrow> rs | None \<Rightarrow> [])
      | HTTPError code reason \<Rightarrow>
          (if code = 400 then
             Inl (Exception (''Bad request to Everything API: The query '' @ [CHR 0x27] @ query
                               @ [CHR 0x27] @ '' is invalid''))
           else if code = 404 then
             Inl (Exception ''Everything API endpoint not found. Check the API URL'')
           else
             Inl (Exception (''HTTP Error '' @ py_str code @ '' from Everything API: ''
                               @ reason)))
      | URLError msg \<Rightarrow>
          Inl (Exception (''Error connecting to Everything API: '' @ msg @ [CHR 0x0A]
                            @ ''Make sure the API server is running''))
      | JSONDecodeError msg \<Rightarrow>
          Inl (Exception ''Error parsing response from Everything API. The response is not valid JSON'')
      | OtherError msg \<Rightarrow> Inl (Exception (''Error searching Everything API: '' @ msg)))"

text \<open>
  \<^verbatim>\<open>search_everything\<close>. Beside its outcome the model returns the backends it called, in
  order, each with the query it was given.
\<close>

datatype backend = Dll | Api

definition search_everything :: "env \<Rightarrow> string \<Rightarrow> (backend \<times> string) list \<times> search_outcome" where
  "search_everything env query =
     (if mode env = ''dll'' then
        (case search_everything_dll env query of
           Inr r \<Rightarrow> ([(Dll, query)], Inr r)
         | Inl e \<Rightarrow> ([(Dll, query), (Api, query)], search_everything_api env query))
      else ([(Api, query)], search_everything_api env query))"

section \<open>The cache and the listing\<close>

text \<open>
  The class attributes of \<^verbatim>\<open>EverythingFS\<close>. Two more fields record what the source does
  not store: \<open>searches\<close> lists the arguments of the calls of \<^verbatim>\<open>search_everything\<close>, and
  \<open>backend_calls\<close> the backends these calls reached.
\<close>

record fs_state =
  current_search_term :: string
  results_cache :: "string \<rightharpoonup> (int \<times> search_result list)"
  last_selected_file :: "string option"
  last_selected_index :: int
  searches :: "string list"
  backend_calls :: "(backend \<times> string) list"

text \<open>
  \<^verbatim>\<open>EverythingFS.update_search\<close>. The \<^verbatim>\<open>try\<close> block is the search, the store and the cut
  to 100 results; the \<^verbatim>\<open>except\<close> branch removes the entry of the term if there is one.
  With a result list that is a list, only the search itself can raise.
\<close>

definition update_search :: "env \<Rightarrow> string \<Rightarrow> fs_state \<Rightarrow> fs_state" where
  "update_search env search_term s =
     (let s1 = s\<lparr>current_search_term := search_term\<rparr> in
      if length search_term \<ge> 3 then
        if search_term \<in> dom (results_cache s1) then s1
        else
          (case search_everything env search_term of
             (calls, outcome) \<Rightarrow>
               let s2 = s1\<lparr>searches := searches s1 @ [search_term],
                           backend_calls := backend_calls s1 @ calls\<rparr>
               in (case outcome of
                     Inr (count, results) \<Rightarrow>
                       s2\<lparr>results_cache := (results_cache s2)(search_term \<mapsto>
                            (count, if length results > 100 then take 100 results else results))\<rparr>
                   | Inl e \<Rightarrow>
                       if search_term \<in> dom (results_cache s2)
                       then s2\<lparr>results_cache := (results_cache s2)(search_term := None)\<rparr>
                       else s2))
      else s1)"

text \<open>
  \<^verbatim>\<open>EverythingFS.iterdir\<close>. The generator is modelled by the list of what it yields, with
  the state it leaves.
\<close>

definition iterdir :: "env \<Rightarrow> string \<Rightarrow> fs_state \<Rightarrow> string list \<times> fs_state" where
  "iterdir env path s =
     (let s' =
        (if CHR ''?'' \<in> set path then
           update_search env (unquote env (after_first CHR ''?'' path)) s
         else if count_list path CHR ''/'' \<ge> 1 then
           (if take 1 path = ''/'' then
              (if isdigit (drop 1 path) then s
               else update_search env (unquote env (drop 1 path)) s)
            else update_search env (unquote env path) s)
         else update_search env '''' s)
      in (if length (current_search_term s') < 3 then [''placeholder'']
          else
            (case results_cache s' (current_search_term s') of
               Some (count, results) \<Rightarrow>
                 map (\<lambda>i. ''/'' @ py_str i) [0..<length results]
             | None \<Rightarrow> [''placeholder'']),
          s'))"

text \<open>
  The argument that \<^verbatim>\<open>iterdir\<close> passes to \<^verbatim>\<open>update_search\<close> for a path, read off its
  chain of tests: \<^const>\<open>None\<close> for a result item path, where the current search term is
  kept.
\<close>

definition iterdir_search_term :: "env \<Rightarrow> string \<Rightarrow> string option" where
  "iterdir_search_term env path =
     (if CHR ''?'' \<in> set path then Some (unquote env (after_first CHR ''?'' path))
      else if count_list path CHR ''/'' \<ge> 1 then
        (if take 1 path = ''/'' then
           (if isdigit (drop 1 path) then None else Some (unquote env (drop 1 path)))
         else Some (unquote env path))
      else Some '''')"

section \<open>Resolution\<close>

definition scheme :: string where
  "scheme = ''everything://''"

text \<open>\<^verbatim>\<open>EverythingFS.resolve\<close>. It reads the state and does not change it.\<close>

definition resolve :: "env \<Rightarrow> fs_state \<Rightarrow> string \<Rightarrow> string" where
  "resolve env s path =
     (if path = ''placeholder'' then scheme @ path
      else if CHR ''/'' \<in> set path then
        (case py_int (after_last CHR ''/'' path) of
           None \<Rightarrow> scheme @ path
         | Some index \<Rightarrow>
             (case results_cache s (current_search_term s) of
                Some (count, results) \<Rightarrow>
                  if 0 \<le> index \<and> index < int (length results)
                  then as_url env (r_path (results ! nat index))
                  else scheme @ path
              | None \<Rightarrow> scheme @ path))
      else scheme @ path)"

text \<open>\<^verbatim>\<open>EverythingFS.is_dir\<close>, the function under the \<^verbatim>\<open>@cached\<close> decorator.\<close>

definition is_dir :: "env \<Rightarrow> fs_state \<Rightarrow> string \<Rightarrow> bool" where
  "is_dir env s path =
     (if path = ''placeholder'' then False
      else if CHR ''/'' \<in> set path then
        (case py_int (after_last CHR ''/'' path) of
           None \<Rightarrow> False
         | Some index \<Rightarrow>
             (case results_cache s (current_search_term s) of
                Some (count, results) \<Rightarrow>
                  if 0 \<le> index \<and> index < int (length results)
                  then isdir env (r_path (results ! nat index))
                  else False
              | None \<Rightarrow> False))
      else False)"

text \<open>
  \<^verbatim>\<open>EverythingFS.get_item_at_index\<close>, called with an integer: \<^const>\<open>None\<close> is Python's
  \<^verbatim>\<open>None\<close>.
\<close>

definition get_item_at_index :: "fs_state \<Rightarrow> int \<Rightarrow> search_result option" where
  "get_item_at_index s index =
     (let search_term = current_search_term s in
      if length search_term < 3 then None
      else
        (case results_cache s search_term of
           Some (count, results) \<Rightarrow>
             if 0 \<le> index \<and> index < int (length results) then Some (results ! nat index)
             else None
         | None \<Rightarrow> None))"

section \<open>Columns and the open listener\<close>

text \<open>
  The index of a path, as the columns and the listener extract it. The general
  extraction takes the last non-empty segment and needs it to satisfy \<^verbatim>\<open>isdigit\<close>;
  \<^verbatim>\<open>int\<close> may still raise on it. \<open>Inr None\<close> stands for the branches that give up.
\<close>

definition complex_index :: "string \<Rightarrow> exn + int option" where
  "complex_index path =
     (if CHR ''/'' \<in> set path then
        (case find (\<lambda>p. p \<noteq> []) (rev (split_on CHR ''/'' path)) of
           Some index_str \<Rightarrow>
             if isdigit index_str then
               (case py_int index_str of Some index \<Rightarrow> Inr (Some index) | None \<Rightarrow> Inl ValueError)
             else Inr None
         | None \<Rightarrow> Inr None)
      else Inr None)"

text \<open>The same with the test for the suffixes \<^verbatim>\<open>/0\<close>, \<^verbatim>\<open>/1\<close>, \<^verbatim>\<open>/2\<close> first.\<close>

definition simple_index :: "string \<Rightarrow> exn + int option" where
  "simple_index path =
     (if endswith path ''/0'' \<or> endswith path ''/1'' \<or> endswith path ''/2'' then
        (case py_int [last path] of Some index \<Rightarrow> Inr (Some index) | None \<Rightarrow> Inl ValueError)
      else complex_index path)"

subsection \<open>The date column\<close>


record datetime =
  year :: nat
  month :: nat
  day :: nat
  hour :: nat
  minute :: nat
  second :: nat

















subsection \<open>The listener\<close>

text \<open>
  What the listener asks of the host: \<^verbatim>\<open>pane.set_path(url)\<close>, \<^verbatim>\<open>pane.set_path(url,
  callback)\<close> with the URL at which the callback places the cursor,
  \<^verbatim>\<open>pane.run_command(name, {'url': url})\<close>, and the two kinds of \<^verbatim>\<open>show_alert\<close>.
\<close>

datatype host_action =
    SetPath string
  | SetPathCallback string string
  | RunCommand string string
  | ShowAlert string
  | ShowAlertParts "string list"

text \<open>What \<^verbatim>\<open>on_command\<close> returns: \<^verbatim>\<open>None\<close>, a boolean, or a command with its URL.\<close>

datatype command_result = RNone | RBool bool | RCommand string string

text \<open>
  \<^verbatim>\<open>EverythingOpenListener.on_doubleclicked\<close> on the parts of \<^verbatim>\<open>splitscheme(file_url)\<close>:
  the returned value (\<^const>\<open>None\<close> or \<^verbatim>\<open>True\<close>), the requests to the host, and the state.
\<close>

definition on_doubleclicked ::
  "env \<Rightarrow> fs_state \<Rightarrow> string \<Rightarrow> string \<Rightarrow> exn + (bool option \<times> host_action list \<times> fs_state)" where
  "on_doubleclicked env s url_scheme path =
     (if url_scheme \<noteq> ''everything://'' then Inr (None, [], s)
      else if path = ''placeholder'' then Inr (None, [], s)
      else
        (case simple_index path of
           Inl e \<Rightarrow> Inl e
         | Inr None \<Rightarrow> Inr (None, [], s)
         | Inr (Some index) \<Rightarrow>
             (case get_item_at_index s index of
                Some item \<Rightarrow>
                  let file_path = r_path item in
                  if isdir env file_path then Inr (Some True, [SetPath (as_url env file_path)], s)
                  else Inr (Some True, [RunCommand ''open'' (as_url env file_path)], s)
              | None \<Rightarrow> Inr (Some True, [], s))))"

text \<open>
  \<^verbatim>\<open>EverythingOpenListener.on_command\<close>; \<open>args_url\<close> is \<^verbatim>\<open>splitscheme(args['url'])\<close>
  when \<^verbatim>\<open>args\<close> has the key.
\<close>

definition on_command ::
  "env \<Rightarrow> fs_state \<Rightarrow> string \<Rightarrow> (string \<times> string) option
     \<Rightarrow> exn + (command_result \<times> host_action list \<times> fs_state)" where
  "on_command env s command_name args_url =
     (if command_name = ''open_file'' then
        (case args_url of
           None \<Rightarrow> Inr (RNone, [], s)
         | Some (url_scheme, path) \<Rightarrow>
             if url_scheme = ''everything://'' then
               if path = ''placeholder'' \<or> path = ''/placeholder'' then Inr (RBool False, [], s)
               else if CHR ''/'' \<in> set path then
                 (let parts = split_on CHR ''/'' path in
                  case find (\<lambda>p. p \<noteq> []) (rev parts) of
                    None \<Rightarrow> Inr (RNone, [ShowAlertParts parts], s)
                  | Some index_str \<Rightarrow>
                      if isdigit index_str then
                        (case py_int index_str of
                           None \<Rightarrow> Inl ValueError
                         | Some index \<Rightarrow>
                             let alerts = [ShowAlertParts parts,
                                   ShowAlert (''Extracted index: '' @ [CHR 0x27] @ index_str @ [CHR 0x27])]
                             in
                             (case get_item_at_index s index of
                                None \<Rightarrow> Inr (RNone, alerts, s)
                              | Some item \<Rightarrow>
                                  let file_path = r_path item in
                                  if isdir env file_path then
                                    Inr (RBool True,
                                         alerts @ [ShowAlert (''Opening directory: '' @ file_path),
                                                   SetPath (as_url env file_path)],
                                         s)
                                  else
                                    let parent_dir = dirname env file_path in
                                    Inr (RCommand ''open_directory'' (as_url env parent_dir),
                                         alerts @ [SetPathCallback (as_url env parent_dir) (as_url env file_path),
                                                   ShowAlert (''Opening parent directory: '' @ parent_dir)],
                                         s\<lparr>last_selected_file := Some file_path,
                                           last_selected_index := index\<rparr>)))
                      else Inr (RNone, [ShowAlertParts parts], s))
               else Inr (RNone, [], s)
             else Inr (RNone, [], s))
      else Inr (RNone, [], s))"

section \<open>Sample inputs\<close>

text \<open>
  Concrete surroundings and states on which the properties below are evaluated. The
  sample \<open>unquote\<close> is the identity, which is what \<^verbatim>\<open>urllib.parse.unquote\<close> does on a
  string without a percent sign. The surroundings \<open>env_api_down\<close>, \<open>env_api_up\<close> and
  \<open>env_api_no_match\<close> have the mode \<^verbatim>\<open>api\<close> and no DLL, which is what the module sets up
  when the DLL file is missing or fails to load.
\<close>

definition item0 :: search_result where
  "item0 = \<lparr>r_filename = ''a.txt'', r_path = ''C:/docs/a.txt'', r_size = 512,
            r_date_modified = Some ''2024-03-05T12:30:00Z''\<rparr>"

definition env_remote_down :: env where
  "env_remote_down =
     \<lparr>mode = ''dll'', everything_dll = None,
      urlopen = (\<lambda>q. URLError ''connection refused''),
      unquote = (\<lambda>x. x), isdir = (\<lambda>p. False), basename = (\<lambda>p. p),
      dirname = (\<lambda>p. ''C:/docs''), as_url = (\<lambda>p. ''file://'' @ p),
      filetime_isoformat = (\<lambda>t. None)\<rparr>"

definition env_remote_up :: env where
  "env_remote_up = env_remote_down\<lparr>urlopen := (\<lambda>q. JsonBody (Some 5) (Some (replicate 5 item0)))\<rparr>"




definition api_down_error :: exn where
  "api_down_error =
     Exception (''Error connecting to Everything API: connection refused'' @ [CHR 0x0A]
                  @ ''Make sure the API server is running'')"

definition env_api_down :: env where
  "env_api_down = env_remote_down\<lparr>mode := ''api''\<rparr>"

definition env_api_up :: env where
  "env_api_up = env_api_down\<lparr>urlopen := (\<lambda>q. JsonBody (Some 5) (Some (replicate 5 item0)))\<rparr>"

definition env_api_no_match :: env where
  "env_api_no_match = env_api_down\<lparr>urlopen := (\<lambda>q. JsonBody (Some 0) (Some []))\<rparr>"

definition s_init :: fs_state where
  "s_init = \<lparr>current_search_term = [], results_cache = Map.empty,
             last_selected_file = None, last_selected_index = 0,
             searches = [], backend_calls = []\<rparr>"

definition s_five :: fs_state where
  "s_five = s_init\<lparr>current_search_term := ''abc'',
                   results_cache := [''abc'' \<mapsto> (5, replicate 5 item0)]\<rparr>"

section \<open>Properties\<close>

subsection \<open>The listing in terms of the decoded search term\<close>

lemma iterdir_Some:
  assumes "iterdir_search_term env path = Some q"
  shows "iterdir env path s =
     (let s' = update_search env q s
      in (if length (current_search_term s') < 3 then [''placeholder'']
          else (case results_cache s' (current_search_term s') of
                  Some (count, results) \<Rightarrow> map (\<lambda>i. ''/'' @ py_str i) [0..<length results]
                | None \<Rightarrow> [''placeholder'']),
          s'))"
  using assms by (auto simp: iterdir_def iterdir_search_term_def Let_def split: if_splits)

lemma iterdir_None:
  assumes "iterdir_search_term env path = None"
  shows "iterdir env path s =
     (if length (current_search_term s) < 3 then [''placeholder'']
      else (case results_cache s (current_search_term s) of
              Some (count, results) \<Rightarrow> map (\<lambda>i. ''/'' @ py_str i) [0..<length results]
            | None \<Rightarrow> [''placeholder'']),
      s)"
  using assms by (auto simp: iterdir_def iterdir_search_term_def Let_def split: if_splits)

subsection \<open>The four ways through \<open>update_search\<close>\<close>

lemma update_search_short:
  "length q < 3 \<Longrightarrow> update_search env q s = s\<lparr>current_search_term := q\<rparr>"
  by (simp add: update_search_def)

lemma update_search_hit:
  "3 \<le> length q \<Longrightarrow> results_cache s q = Some v \<Longrightarrow>
   update_search env q s = s\<lparr>current_search_term := q\<rparr>"
  by (auto simp: update_search_def Let_def)

lemma update_search_stored:
  assumes "3 \<le> length q" and "results_cache s q = None"
    and "snd (search_everything env q) = Inr (count, results)"
  shows "update_search env q s =
     s\<lparr>current_search_term := q,
       searches := searches s @ [q],
       backend_calls := backend_calls s @ fst (search_everything env q),
       results_cache := (results_cache s)(q \<mapsto> (count, take 100 results))\<rparr>"
  using assms by (auto simp: update_search_def Let_def domIff split: prod.splits)

lemma update_search_failed:
  assumes "3 \<le> length q" and "results_cache s q = None"
    and "snd (search_everything env q) = Inl e"
  shows "update_search env q s =
     s\<lparr>current_search_term := q,
       searches := searches s @ [q],
       backend_calls := backend_calls s @ fst (search_everything env q)\<rparr>"
  using assms by (auto simp: update_search_def Let_def domIff split: prod.splits)

subsection \<open>Evaluations on the sample inputs\<close>

lemma py_int_minus_one: "py_int (after_last CHR ''/'' ''/abc/-1'') = Some (- 1)"
  by (simp add: py_int_def after_last_def strip_def isspace_char_def parse_unsigned_def
      is_decimal_def digit_val_def)

subsection \<open>Fallback from the native to the remote backend\<close>

text \<open>
  C6. A DLL that is not loaded makes \<open>search_everything_dll\<close> fail. With the mode
  \<^verbatim>\<open>dll\<close>, whenever \<open>search_everything_dll\<close> fails, \<open>search_everything\<close> calls the API
  with the same query and returns what the API returns. Whenever the API was called and
  failed, its failure is the outcome and no backend is called after it.
\<close>

theorem native_failure_falls_back:
  "(everything_dll env = None \<longrightarrow> (\<exists>e. search_everything_dll env q = Inl e))
   \<and> (mode env = ''dll'' \<and> search_everything_dll env q = Inl e \<longrightarrow>
        search_everything env q = ([(Dll, q), (Api, q)], search_everything_api env q))
   \<and> (search_everything_api env q = Inl e' \<and> (Api, q) \<in> set (fst (search_everything env q)) \<longrightarrow>
        snd (search_everything env q) = Inl e' \<and> last (fst (search_everything env q)) = (Api, q))"
  by (auto simp: search_everything_def search_everything_dll_def split: sum.splits)

theorem native_failure_falls_back_witness:
  "everything_dll env_remote_down = None \<and> mode env_remote_down = ''dll''
   \<and> search_everything_dll env_remote_down ''abc''
       = Inl (Exception ''Error searching Everything DLL: Everything DLL not loaded'')
   \<and> search_everything_api env_remote_down ''abc''
       = Inl (Exception (''Error connecting to Everything API: connection refused'' @ [CHR 0x0A]
                           @ ''Make sure the API server is running''))
   \<and> search_everything env_remote_down ''abc''
       = ([(Dll, ''abc''), (Api, ''abc'')], search_everything_api env_remote_down ''abc'')
   \<and> last (fst (search_everything env_remote_down ''abc'')) = (Api, ''abc'')"
proof -
  have dll: "search_everything_dll env_remote_down ''abc''
       = Inl (Exception ''Error searching Everything DLL: Everything DLL not loaded'')"
    by (simp add: search_everything_dll_def env_remote_down_def)
  have api: "search_everything_api env_remote_down ''abc''
       = Inl (Exception (''Error connecting to Everything API: connection refused'' @ [CHR 0x0A]
                           @ ''Make sure the API server is running''))"
    by (simp add: search_everything_api_def env_remote_down_def)
  have m: "mode env_remote_down = ''dll''" "everything_dll env_remote_down = None"
    by (simp_all add: env_remote_down_def)
  from native_failure_falls_back [of env_remote_down "''abc''"
      "Exception ''Error searching Everything DLL: Everything DLL not loaded''"
      "Exception (''Error connecting to Everything API: connection refused'' @ [CHR 0x0A]
                           @ ''Make sure the API server is running'')"]
  show ?thesis using dll api m by simp
qed

subsection \<open>Lookups that find nothing\<close>

text \<open>
  C7. \<open>get_item_at_index\<close> returns \<^const>\<open>None\<close> whenever the current search term has
  fewer than three characters, or has no entry in the cache, or the index is outside the
  cached list. It is a total function into an option: there is no exception it could
  raise on an integer index.
\<close>

theorem get_item_at_index_absent:
  assumes "length (current_search_term s) < 3
           \<or> results_cache s (current_search_term s) = None
           \<or> (\<exists>count results. results_cache s (current_search_term s) = Some (count, results)
                \<and> \<not> (0 \<le> index \<and> index < int (length results)))"
  shows "get_item_at_index s index = None"
  using assms by (auto simp: get_item_at_index_def Let_def)

theorem get_item_at_index_absent_witness:
  "results_cache s_five (current_search_term s_five) = Some (5, replicate 5 item0)
   \<and> get_item_at_index s_five 9999 = None"
proof -
  have c: "results_cache s_five (current_search_term s_five) = Some (5, replicate 5 item0)"
    by (simp add: s_five_def s_init_def)
  then have "get_item_at_index s_five 9999 = None"
    by (intro get_item_at_index_absent) simp
  with c show ?thesis by simp
qed

subsection \<open>Negative indices\<close>

text \<open>
  C10. When the segment after the last slash of a path reads as a negative integer,
  \<open>resolve\<close> returns the scheme followed by the path, \<open>is_dir\<close> is false, and
  \<open>get_item_at_index\<close> at that integer returns \<^const>\<open>None\<close>, whatever the cache holds: a
  negative index never reaches the list from its end.
\<close>

theorem negative_index_selects_nothing:
  assumes "py_int (after_last CHR ''/'' path) = Some i" and "i < 0"
  shows "resolve env s path = scheme @ path \<and> \<not> is_dir env s path
         \<and> get_item_at_index s i = None"
  using assms
  by (auto simp: resolve_def is_dir_def get_item_at_index_def Let_def split: option.splits)

theorem negative_index_selects_nothing_witness:
  "resolve env_remote_up s_five ''/abc/-1'' = ''everything:///abc/-1''
   \<and> \<not> is_dir env_remote_up s_five ''/abc/-1''
   \<and> get_item_at_index s_five (- 1) = None"
  using negative_index_selects_nothing [of "''/abc/-1''" "- 1" env_remote_up s_five]
  by (simp add: py_int_minus_one scheme_def)

subsection \<open>Evaluations of the backends\<close>

lemma decode_foo_5: "iterdir_search_term env_remote_up ''/foo/5'' = Some ''foo/5''"
  by (simp add: iterdir_search_term_def env_remote_up_def env_remote_down_def isdigit_def
      isdigit_char_def is_decimal_def)




lemma five_children:
  "map (\<lambda>i. ''/'' @ py_str i) [0..<5] = [''/0'', ''/1'', ''/2'', ''/3'', ''/4'']"
  by code_simp

subsection \<open>Decimal segments\<close>

lemma is_decimal_cases:
  "is_decimal c \<Longrightarrow> c \<noteq> CHR ''/'' \<and> c \<noteq> CHR ''?'' \<and> c \<noteq> CHR ''-'' \<and> c \<noteq> CHR ''+''
     \<and> \<not> isspace_char c \<and> isdigit_char c"
  by (auto simp: is_decimal_def isspace_char_def isdigit_char_def)

lemma dropWhile_decimal:
  "ds \<noteq> [] \<Longrightarrow> is_decimal (hd ds) \<Longrightarrow> dropWhile isspace_char ds = ds"
  by (cases ds) (auto simp: is_decimal_cases)

lemma strip_decimal:
  assumes "ds \<noteq> []" and "list_all is_decimal ds"
  shows "strip ds = ds"
proof -
  from assms have "is_decimal (hd ds)" "is_decimal (hd (rev ds))" "rev ds \<noteq> []"
    by (auto simp: list_all_iff hd_rev)
  with assms(1) show ?thesis
    by (simp add: strip_def dropWhile_decimal)
qed

lemma parse_digits_decimal:
  "list_all is_decimal ds \<Longrightarrow> \<exists>n. parse_digits acc ds = Some n"
  by (induction acc ds rule: parse_digits.induct) auto

lemma py_int_decimal:
  assumes "ds \<noteq> []" and "list_all is_decimal ds"
  shows "\<exists>n. py_int ds = Some (int n)"
proof -
  from assms obtain c cs where ds: "ds = c # cs" and c: "is_decimal c" and cs: "list_all is_decimal cs"
    by (cases ds) auto
  from parse_digits_decimal [OF cs] obtain n where "parse_digits (digit_val c) cs = Some n" by blast
  moreover have "strip (c # cs) = c # cs"
    using strip_decimal [OF assms] ds by simp
  ultimately show ?thesis
    using c by (simp add: ds py_int_def parse_unsigned_def is_decimal_cases)
qed

lemma after_last_append:
  assumes "c \<notin> set ds"
  shows "after_last c (base @ c # ds) = ds"
proof -
  have "takeWhile (\<lambda>x. x \<noteq> c) (rev ds @ c # rev base) = takeWhile (\<lambda>x. x \<noteq> c) (rev ds)"
    by (simp add: takeWhile_tail)
  also have "\<dots> = rev ds"
    using assms by (induction ds) auto
  finally show ?thesis by (simp add: after_last_def)
qed

lemma decode_result_item:
  assumes "ds \<noteq> []" and "list_all is_decimal ds"
  shows "iterdir_search_term env (''/'' @ ds) = None"
proof -
  from assms have "CHR ''?'' \<notin> set ds" "isdigit ds"
    using is_decimal_cases by (auto simp: list_all_iff isdigit_def)
  then show ?thesis by (simp add: iterdir_search_term_def)
qed

lemma py_int_3: "py_int ''3'' = Some 3"
  by (simp add: py_int_def strip_def isspace_char_def parse_unsigned_def is_decimal_def
      digit_val_def)

subsection \<open>Segments of a path\<close>

lemma split_on_nonempty: "split_on c s \<noteq> []"
  by (induction s) auto

lemma split_on_no_sep: "c \<notin> set s \<Longrightarrow> split_on c s = [s]"
  by (induction s) auto

lemma split_on_append: "split_on c (xs @ c # ys) = split_on c xs @ split_on c ys"
  by (induction xs) (auto simp: split_on_nonempty)

lemma find_last_part:
  assumes "c \<notin> set ds" and "ds \<noteq> []"
  shows "find (\<lambda>p. p \<noteq> []) (rev (split_on c (base @ c # ds))) = Some ds"
  using assms by (simp add: split_on_append split_on_no_sep)

lemma endswith_iff: "endswith s suf \<longleftrightarrow> (\<exists>base. s = base @ suf)"
  by (auto simp: endswith_def) (metis append_take_drop_id)

text \<open>
  The test for the suffixes \<^verbatim>\<open>/0\<close>, \<^verbatim>\<open>/1\<close>, \<^verbatim>\<open>/2\<close> never changes the index: the
  general extraction finds the same one.
\<close>

lemma simple_index_eq: "simple_index path = complex_index path"
proof -
  have one: "complex_index (base @ [CHR ''/'', d])
               = (case py_int [d] of Some index \<Rightarrow> Inr (Some index) | None \<Rightarrow> Inl ValueError)"
    if "d \<in> set ''012''" for base d
  proof -
    from that have "CHR ''/'' \<notin> set [d]" "isdigit [d]"
      by (auto simp: isdigit_def isdigit_char_def is_decimal_def)
    then show ?thesis
      using find_last_part [of "CHR ''/''" "[d]" base] by (simp add: complex_index_def)
  qed
  show ?thesis
  proof (cases "endswith path ''/0'' \<or> endswith path ''/1'' \<or> endswith path ''/2''")
    case True
    then obtain base d where "path = base @ [CHR ''/'', d]" "d \<in> set ''012''"
      by (auto simp: endswith_iff)
    then show ?thesis using True one [of d base] by (simp add: simple_index_def)
  next
    case False
    then show ?thesis by (simp add: simple_index_def)
  qed
qed


lemma get_item_five_0: "get_item_at_index s_five 0 = Some item0"
  by (simp add: get_item_at_index_def s_five_def s_init_def)

subsection \<open>Result item paths\<close>

text \<open>
  C1, as amended. For a path that is a slash followed by decimal digits only, \<open>iterdir\<close>
  calls no \<open>update_search\<close> and leaves the whole state, the current search term with
  it, as it was. For a path whose segment after the last slash is all decimal digits,
  \<open>resolve\<close> reads that segment as the integer \<open>n\<close> and looks entry \<open>n\<close> up in the cached
  list of the current search term. (A longer path such as \<^verbatim>\<open>/foo/5\<close> is a search term for
  \<open>iterdir\<close>: see the counterexample.)
\<close>

theorem result_item_path_keeps_query:
  assumes "ds \<noteq> []" and "list_all is_decimal ds"
  shows "iterdir_search_term env (''/'' @ ds) = None
    \<and> snd (iterdir env (''/'' @ ds) s) = s
    \<and> (\<exists>n. py_int ds = Some (int n)
          \<and> resolve env s (base @ ''/'' @ ds) =
              (case results_cache s (current_search_term s) of
                 Some (count, results) \<Rightarrow>
                   if n < length results then as_url env (r_path (results ! n))
                   else scheme @ base @ ''/'' @ ds
               | None \<Rightarrow> scheme @ base @ ''/'' @ ds))"
proof -
  have dec: "iterdir_search_term env (''/'' @ ds) = None"
    by (rule decode_result_item [OF assms])
  from py_int_decimal [OF assms] obtain n where n: "py_int ds = Some (int n)" by blast
  from assms have "CHR ''/'' \<notin> set ds" using is_decimal_cases by (auto simp: list_all_iff)
  then have al: "after_last CHR ''/'' (base @ CHR ''/'' # ds) = ds" by (rule after_last_append)
  have np: "base @ CHR ''/'' # ds \<noteq> ''placeholder''"
  proof
    assume "base @ CHR ''/'' # ds = ''placeholder''"
    then have "CHR ''/'' \<in> set ''placeholder''" by (metis in_set_conv_decomp)
    then show False by simp
  qed
  have "resolve env s (base @ ''/'' @ ds) =
              (case results_cache s (current_search_term s) of
                 Some (count, results) \<Rightarrow>
                   if n < length results then as_url env (r_path (results ! n))
                   else scheme @ base @ ''/'' @ ds
               | None \<Rightarrow> scheme @ base @ ''/'' @ ds)"
    using np by (simp add: resolve_def al n split: option.splits)
  with dec n show ?thesis by (simp add: iterdir_None)
qed

theorem result_item_path_keeps_query_witness:
  "snd (iterdir env_remote_up ''/3'' s_five) = s_five
   \<and> resolve env_remote_up s_five ''/abc//3'' = ''file://C:/docs/a.txt''"
proof -
  have d: "''3'' \<noteq> []" "list_all is_decimal ''3''" by (simp_all add: is_decimal_def)
  from result_item_path_keeps_query [OF d, of env_remote_up s_five "''/abc/''"]
  show ?thesis
    by (auto simp: py_int_3 s_five_def s_init_def env_remote_up_def env_remote_down_def item0_def)
qed

text \<open>
  The claim C1 as stated fails on the path \<^verbatim>\<open>/foo/5\<close>: its last segment is the digit 5,
  but \<open>iterdir\<close> takes all of \<^verbatim>\<open>foo/5\<close> for a search term and makes it the current one.
\<close>

theorem listing_decode_counterexample:
  "current_search_term s_five = ''abc''
   \<and> current_search_term (snd (iterdir env_remote_up ''/foo/5'' s_five)) = ''foo/5''"
  by (simp add: iterdir_Some [OF decode_foo_5] update_search_def Let_def s_five_def s_init_def
       split: prod.splits sum.splits)


subsection \<open>Root paths and the sample surroundings\<close>

text \<open>
  The root path of a query is a slash followed by the encoded query. Without a question
  mark in it, \<open>iterdir\<close> reads it as a result item when the encoded query satisfies
  \<^verbatim>\<open>isdigit\<close>, and as the query otherwise.
\<close>

lemma decode_root:
  assumes "CHR ''?'' \<notin> set e"
  shows "iterdir_search_term env (CHR ''/'' # e) = (if isdigit e then None else Some (unquote env e))"
  using assms by (simp add: iterdir_search_term_def)

lemma unquote_api [simp]:
  "unquote env_api_down x = x" "unquote env_api_up x = x" "unquote env_api_no_match x = x"
  by (simp_all add: env_api_down_def env_api_up_def env_api_no_match_def env_remote_down_def)

lemma search_api_down: "search_everything env_api_down q = ([(Api, q)], Inl api_down_error)"
  by (simp add: search_everything_def search_everything_api_def env_api_down_def
      env_remote_down_def api_down_error_def)

lemma search_api_up:
  "search_everything env_api_up q = ([(Api, q)], Inr (5, replicate 5 item0))"
  by (simp add: search_everything_def search_everything_api_def env_api_up_def env_api_down_def
      env_remote_down_def)

lemma search_api_no_match: "search_everything env_api_no_match q = ([(Api, q)], Inr (0, []))"
  by (simp add: search_everything_def search_everything_api_def env_api_no_match_def
      env_api_down_def env_remote_down_def)

lemma not_isdigit_letters: "\<not> isdigit ''abc''" "\<not> isdigit ''ab''"
  by (simp_all add: isdigit_def isdigit_char_def is_decimal_def)

lemma isdigit_samples: "isdigit ''12''" "isdigit ''2024''"
  by (simp_all add: isdigit_def isdigit_char_def is_decimal_def)

lemma child_not_placeholder: "''placeholder'' \<notin> set (map (\<lambda>i. ''/'' @ py_str i) [0..<n])"
  by auto

subsection \<open>Queries that are too short\<close>

text \<open>
  C5, as amended. Let \<open>q\<close> be a query of fewer than three characters and \<open>e\<close> its
  encoded form, without a question mark. The listing of the root path \<^verbatim>\<open>/e\<close> makes no
  search, calls no backend and leaves the cache as it was. When \<open>e\<close> does not satisfy
  \<^verbatim>\<open>isdigit\<close>, the listing is the placeholder alone and \<open>q\<close> becomes the current search
  term. When \<open>e\<close> satisfies \<^verbatim>\<open>isdigit\<close> (as for the query \<^verbatim>\<open>12\<close>), the path is read as a
  result item: the state is kept whole, and the listing is the one of the current
  search term, its cached children if it has any.
\<close>

theorem short_query_listing:
  assumes "unquote env e = q" and "CHR ''?'' \<notin> set e" and "length q < 3"
  shows "searches (snd (iterdir env (CHR ''/'' # e) s)) = searches s
    \<and> backend_calls (snd (iterdir env (CHR ''/'' # e) s)) = backend_calls s
    \<and> results_cache (snd (iterdir env (CHR ''/'' # e) s)) = results_cache s
    \<and> (\<not> isdigit e \<longrightarrow>
          iterdir env (CHR ''/'' # e) s = ([''placeholder''], s\<lparr>current_search_term := q\<rparr>))
    \<and> (isdigit e \<longrightarrow>
          iterdir env (CHR ''/'' # e) s =
            (if length (current_search_term s) < 3 then [''placeholder'']
             else (case results_cache s (current_search_term s) of
                     Some (count, results) \<Rightarrow> map (\<lambda>i. ''/'' @ py_str i) [0..<length results]
                   | None \<Rightarrow> [''placeholder'']),
             s))"
proof (cases "isdigit e")
  case True
  then have "iterdir_search_term env (CHR ''/'' # e) = None"
    using assms(2) by (simp add: decode_root)
  from iterdir_None [OF this, of s] True show ?thesis by simp
next
  case False
  then have "iterdir_search_term env (CHR ''/'' # e) = Some q"
    using assms(1,2) by (simp add: decode_root)
  from iterdir_Some [OF this, of s] False assms(3) show ?thesis
    by (simp add: update_search_short)
qed

theorem short_query_listing_witness:
  "iterdir env_api_up ''/ab'' s_five = ([''placeholder''], s_five\<lparr>current_search_term := ''ab''\<rparr>)
   \<and> iterdir env_api_up ''/12'' s_init = ([''placeholder''], s_init)"
proof -
  have q: "CHR ''?'' \<notin> set ''ab''" "length ''ab'' < 3" "CHR ''?'' \<notin> set ''12''" "length ''12'' < 3"
    by simp_all
  have cur: "length (current_search_term s_init) < 3" by (simp add: s_init_def)
  from short_query_listing [OF unquote_api(2) q(1,2), of s_five]
       short_query_listing [OF unquote_api(2) q(3,4), of s_init]
  show ?thesis using not_isdigit_letters(2) isdigit_samples(1) cur by simp
qed

text \<open>
  The claim C5 as stated fails on the query \<^verbatim>\<open>12\<close>: its root path \<^verbatim>\<open>/12\<close> is read as a
  result item, and with \<^verbatim>\<open>abc\<close> current and cached the listing is the five children of
  \<^verbatim>\<open>abc\<close>, not the placeholder.
\<close>

theorem short_digits_counterexample:
  "fst (iterdir env_api_up ''/12'' s_five) = [''/0'', ''/1'', ''/2'', ''/3'', ''/4'']"
proof -
  have "iterdir_search_term env_api_up ''/12'' = None"
    using decode_root [of "''12''" env_api_up] isdigit_samples(1) by simp
  from iterdir_None [OF this, of s_five] five_children show ?thesis
    by (simp add: s_five_def s_init_def)
qed

subsection \<open>First and second listing of a query\<close>

text \<open>
  C2, as amended. Let \<open>q\<close> be a query of at least three characters with no entry in the
  cache, and \<open>e\<close> its encoded form, without a question mark. When \<open>e\<close> satisfies
  \<^verbatim>\<open>isdigit\<close>, the listing of the root path \<^verbatim>\<open>/e\<close> is the one of a result item and leaves
  the state whole: it makes no search. Otherwise the listing makes exactly one call of
  \<open>search_everything\<close>, with \<open>q\<close>, and reaches the backends that this one call reaches,
  whether the call succeeds or fails. When it succeeds with \<open>count\<close> and \<open>results\<close>, the
  count and the first 100 results are stored under \<open>q\<close> and the listing is one child per
  stored entry; the listing of a root path of \<open>q\<close> from any later state that still holds
  this entry, in any surroundings, then changes the current search term only, so it
  makes no search and calls no backend, and it yields the children of the stored
  entries. When the call fails, the cache is left as it was and the listing is the
  placeholder.
\<close>

theorem cached_listing:
  assumes "unquote env e = q" and "CHR ''?'' \<notin> set e" and "3 \<le> length q"
    and "results_cache s q = None"
  shows "(isdigit e \<longrightarrow> snd (iterdir env (CHR ''/'' # e) s) = s)
    \<and> (\<not> isdigit e \<longrightarrow>
          searches (snd (iterdir env (CHR ''/'' # e) s)) = searches s @ [q]
        \<and> backend_calls (snd (iterdir env (CHR ''/'' # e) s))
            = backend_calls s @ fst (search_everything env q)
        \<and> (\<forall>count results. snd (search_everything env q) = Inr (count, results) \<longrightarrow>
              iterdir env (CHR ''/'' # e) s =
                (map (\<lambda>i. ''/'' @ py_str i) [0..<length (take 100 results)],
                 s\<lparr>current_search_term := q,
                   searches := searches s @ [q],
                   backend_calls := backend_calls s @ fst (search_everything env q),
                   results_cache := (results_cache s)(q \<mapsto> (count, take 100 results))\<rparr>)
            \<and> (unquote env' e' = q \<and> CHR ''?'' \<notin> set e' \<and> \<not> isdigit e'
                  \<and> results_cache s2 q = Some (count, take 100 results) \<longrightarrow>
                 iterdir env' (CHR ''/'' # e') s2 =
                   (map (\<lambda>i. ''/'' @ py_str i) [0..<length (take 100 results)],
                    s2\<lparr>current_search_term := q\<rparr>)))
        \<and> (\<forall>err. snd (search_everything env q) = Inl err \<longrightarrow>
              iterdir env (CHR ''/'' # e) s =
                ([''placeholder''],
                 s\<lparr>current_search_term := q,
                   searches := searches s @ [q],
                   backend_calls := backend_calls s @ fst (search_everything env q)\<rparr>)))"
proof (cases "isdigit e")
  case True
  then have "iterdir_search_term env (CHR ''/'' # e) = None"
    using assms(2) by (simp add: decode_root)
  from iterdir_None [OF this, of s] True show ?thesis by simp
next
  case False
  then have dec: "iterdir_search_term env (CHR ''/'' # e) = Some q"
    using assms(1,2) by (simp add: decode_root)
  have ok: "iterdir env (CHR ''/'' # e) s =
                (map (\<lambda>i. ''/'' @ py_str i) [0..<length (take 100 results)],
                 s\<lparr>current_search_term := q,
                   searches := searches s @ [q],
                   backend_calls := backend_calls s @ fst (search_everything env q),
                   results_cache := (results_cache s)(q \<mapsto> (count, take 100 results))\<rparr>)"
    if "snd (search_everything env q) = Inr (count, results)" for count results
    using assms(3) by (simp add: iterdir_Some [OF dec] update_search_stored [OF assms(3,4) that])
  have hit: "iterdir env' (CHR ''/'' # e') s2 =
                   (map (\<lambda>i. ''/'' @ py_str i) [0..<length (take 100 results)],
                    s2\<lparr>current_search_term := q\<rparr>)"
    if "unquote env' e' = q" "CHR ''?'' \<notin> set e'" "\<not> isdigit e'"
       "results_cache s2 q = Some (count, take 100 results)" for count results
  proof -
    from that have "iterdir_search_term env' (CHR ''/'' # e') = Some q" by (simp add: decode_root)
    from iterdir_Some [OF this, of s2] that(4) assms(3) show ?thesis
      by (simp add: update_search_hit)
  qed
  have bad: "iterdir env (CHR ''/'' # e) s =
                ([''placeholder''],
                 s\<lparr>current_search_term := q,
                   searches := searches s @ [q],
                   backend_calls := backend_calls s @ fst (search_everything env q)\<rparr>)"
    if "snd (search_everything env q) = Inl err" for err
    using assms(3,4) by (simp add: iterdir_Some [OF dec] update_search_failed [OF assms(3,4) that])
  have calls: "searches (snd (iterdir env (CHR ''/'' # e) s)) = searches s @ [q]
        \<and> backend_calls (snd (iterdir env (CHR ''/'' # e) s))
            = backend_calls s @ fst (search_everything env q)"
  proof (cases "snd (search_everything env q)")
    case (Inl err)
    from bad [OF this] show ?thesis by simp
  next
    case (Inr r)
    then have "snd (search_everything env q) = Inr (fst r, snd r)" by simp
    from ok [OF this] show ?thesis by simp
  qed
  from False calls ok hit bad show ?thesis by blast
qed

theorem cached_listing_witness:
  "searches (snd (iterdir env_api_up ''/abc'' s_init)) = [''abc'']
   \<and> backend_calls (snd (iterdir env_api_up ''/abc'' s_init)) = [(Api, ''abc'')]
   \<and> results_cache (snd (iterdir env_api_up ''/abc'' s_init)) ''abc''
       = Some (5, replicate 5 item0)
   \<and> iterdir env_api_down ''/abc'' (snd (iterdir env_api_up ''/abc'' s_init))
       = ([''/0'', ''/1'', ''/2'', ''/3'', ''/4''], snd (iterdir env_api_up ''/abc'' s_init))
   \<and> iterdir env_api_down ''/abc'' s_init
       = ([''placeholder''],
          s_init\<lparr>current_search_term := ''abc'', searches := [''abc''],
                 backend_calls := [(Api, ''abc'')]\<rparr>)
   \<and> snd (iterdir env_api_up ''/2024'' s_init) = s_init"
proof -
  have q: "CHR ''?'' \<notin> set ''abc''" "3 \<le> length ''abc''" "results_cache s_init ''abc'' = None"
    "CHR ''?'' \<notin> set ''2024''" "3 \<le> length ''2024''" "results_cache s_init ''2024'' = None"
    by (simp_all add: s_init_def)
  note up = cached_listing [OF unquote_api(2) q(1,2,3),
      of env_api_down "''abc''" "snd (iterdir env_api_up ''/abc'' s_init)"]
  note down = cached_listing [OF unquote_api(1) q(1,2,3)]
  note digits = cached_listing [OF unquote_api(2) q(4,5,6)]
  have ok: "snd (search_everything env_api_up ''abc'') = Inr (5, replicate 5 item0)"
    by (simp add: search_api_up)
  have bad: "snd (search_everything env_api_down ''abc'') = Inl api_down_error"
    by (simp add: search_api_down)
  have first: "iterdir env_api_up ''/abc'' s_init =
      (map (\<lambda>i. ''/'' @ py_str i) [0..<length (take 100 (replicate 5 item0))],
       s_init\<lparr>current_search_term := ''abc'',
              searches := searches s_init @ [''abc''],
              backend_calls := backend_calls s_init @ fst (search_everything env_api_up ''abc''),
              results_cache := (results_cache s_init)(''abc'' \<mapsto> (5, take 100 (replicate 5 item0)))\<rparr>)"
    using up not_isdigit_letters(1) ok by blast
  have stored: "results_cache (snd (iterdir env_api_up ''/abc'' s_init)) ''abc''
       = Some (5, take 100 (replicate 5 item0))"
    unfolding first by simp
  have second: "iterdir env_api_down ''/abc'' (snd (iterdir env_api_up ''/abc'' s_init))
       = (map (\<lambda>i. ''/'' @ py_str i) [0..<length (take 100 (replicate 5 item0))],
          (snd (iterdir env_api_up ''/abc'' s_init))\<lparr>current_search_term := ''abc''\<rparr>)"
    using up not_isdigit_letters(1) ok stored unquote_api(1) q(1) by blast
  have failed: "iterdir env_api_down ''/abc'' s_init
       = ([''placeholder''],
          s_init\<lparr>current_search_term := ''abc'',
                 searches := searches s_init @ [''abc''],
                 backend_calls := backend_calls s_init @ fst (search_everything env_api_down ''abc'')\<rparr>)"
    using down not_isdigit_letters(1) bad by blast
  have kept: "snd (iterdir env_api_up ''/2024'' s_init) = s_init"
    using digits isdigit_samples(2) by blast
  have same: "(snd (iterdir env_api_up ''/abc'' s_init))\<lparr>current_search_term := ''abc''\<rparr>
       = snd (iterdir env_api_up ''/abc'' s_init)"
    unfolding first by simp
  have five: "map (\<lambda>i. ''/'' @ py_str i) [0..<length (take 100 (replicate 5 item0))]
       = [''/0'', ''/1'', ''/2'', ''/3'', ''/4'']"
    using five_children by simp
  have a: "searches (snd (iterdir env_api_up ''/abc'' s_init)) = [''abc'']"
    unfolding first by (simp add: s_init_def)
  have b: "backend_calls (snd (iterdir env_api_up ''/abc'' s_init)) = [(Api, ''abc'')]"
    unfolding first by (simp add: s_init_def search_api_up)
  have c: "results_cache (snd (iterdir env_api_up ''/abc'' s_init)) ''abc''
       = Some (5, replicate 5 item0)"
    using stored by simp
  have d: "iterdir env_api_down ''/abc'' (snd (iterdir env_api_up ''/abc'' s_init))
       = ([''/0'', ''/1'', ''/2'', ''/3'', ''/4''], snd (iterdir env_api_up ''/abc'' s_init))"
    unfolding second same five ..
  have e: "iterdir env_api_down ''/abc'' s_init
       = ([''placeholder''],
          s_init\<lparr>current_search_term := ''abc'', searches := [''abc''],
                 backend_calls := [(Api, ''abc'')]\<rparr>)"
    unfolding failed by (simp add: s_init_def search_api_down)
  from a b c d e kept show ?thesis by blast
qed

text \<open>
  The claim C2 as stated fails when the search fails: nothing is stored under the
  query, and the second listing searches again.
\<close>

theorem second_listing_counterexample:
  "results_cache (snd (iterdir env_api_down ''/abc'' s_init)) ''abc'' = None
   \<and> searches (snd (iterdir env_api_down ''/abc''
                       (snd (iterdir env_api_down ''/abc'' s_init))))
       = [''abc'', ''abc'']"
proof -
  have dec: "iterdir_search_term env_api_down ''/abc'' = Some ''abc''"
    using decode_root [of "''abc''" env_api_down] not_isdigit_letters(1) by simp
  have step: "iterdir env_api_down ''/abc'' s =
     ([''placeholder''],
      s\<lparr>current_search_term := ''abc'', searches := searches s @ [''abc''],
        backend_calls := backend_calls s @ [(Api, ''abc'')]\<rparr>)"
    if "results_cache s ''abc'' = None" for s
    using that
    by (simp add: iterdir_Some [OF dec] search_api_down
        update_search_failed [where e = api_down_error])
  show ?thesis by (simp add: step s_init_def)
qed

subsection \<open>What a listing yields\<close>

text \<open>
  C4, as amended. \<open>iterdir\<close> is a total function into lists of names: every exception
  below it is a value that \<open>update_search\<close> consumes, so a listing never raises. The
  state after the call is the state before it for a result item path, and the one that
  \<open>update_search\<close> leaves for the decoded term otherwise. The listing is the placeholder
  alone when the current search term after the call has fewer than three characters or
  no entry in the cache; otherwise it is exactly one child per entry stored for that
  term, in order, without the placeholder, which is the empty listing when no entry is
  stored in the list. In particular, for a decoded term of at least three characters
  that was not cached, a failed search gives the placeholder alone and leaves the cache
  as it was, and a successful search gives one child for each of the first 100
  results.
\<close>

theorem listing_yields:
  "snd (iterdir env path s)
     = (case iterdir_search_term env path of None \<Rightarrow> s | Some t \<Rightarrow> update_search env t s)
   \<and> (length (current_search_term (snd (iterdir env path s))) < 3 \<longrightarrow>
        fst (iterdir env path s) = [''placeholder''])
   \<and> (results_cache (snd (iterdir env path s)) (current_search_term (snd (iterdir env path s)))
        = None \<longrightarrow>
        fst (iterdir env path s) = [''placeholder''])
   \<and> (3 \<le> length (current_search_term (snd (iterdir env path s)))
      \<and> results_cache (snd (iterdir env path s)) (current_search_term (snd (iterdir env path s)))
          = Some (count, results) \<longrightarrow>
        fst (iterdir env path s) = map (\<lambda>i. ''/'' @ py_str i) [0..<length results]
        \<and> ''placeholder'' \<notin> set (fst (iterdir env path s)))
   \<and> (iterdir_search_term env path = Some q \<and> 3 \<le> length q \<and> results_cache s q = None
      \<and> snd (search_everything env q) = Inl err \<longrightarrow>
        fst (iterdir env path s) = [''placeholder'']
        \<and> results_cache (snd (iterdir env path s)) = results_cache s)
   \<and> (iterdir_search_term env path = Some q \<and> 3 \<le> length q \<and> results_cache s q = None
      \<and> snd (search_everything env q) = Inr (count', results') \<longrightarrow>
        fst (iterdir env path s)
          = map (\<lambda>i. ''/'' @ py_str i) [0..<length (take 100 results')])"
proof (intro conjI)
  show "snd (iterdir env path s)
     = (case iterdir_search_term env path of None \<Rightarrow> s | Some t \<Rightarrow> update_search env t s)"
    by (cases "iterdir_search_term env path") (simp_all add: iterdir_Some iterdir_None Let_def)
next
  show "length (current_search_term (snd (iterdir env path s))) < 3 \<longrightarrow>
        fst (iterdir env path s) = [''placeholder'']"
    by (cases "iterdir_search_term env path") (simp_all add: iterdir_Some iterdir_None Let_def)
next
  show "results_cache (snd (iterdir env path s)) (current_search_term (snd (iterdir env path s)))
        = None \<longrightarrow>
        fst (iterdir env path s) = [''placeholder'']"
    by (cases "iterdir_search_term env path") (simp_all add: iterdir_Some iterdir_None Let_def)
next
  show "3 \<le> length (current_search_term (snd (iterdir env path s)))
      \<and> results_cache (snd (iterdir env path s)) (current_search_term (snd (iterdir env path s)))
          = Some (count, results) \<longrightarrow>
        fst (iterdir env path s) = map (\<lambda>i. ''/'' @ py_str i) [0..<length results]
        \<and> ''placeholder'' \<notin> set (fst (iterdir env path s))"
    by (cases "iterdir_search_term env path") (auto simp: iterdir_Some iterdir_None Let_def)
next
  show "iterdir_search_term env path = Some q \<and> 3 \<le> length q \<and> results_cache s q = None
      \<and> snd (search_everything env q) = Inl err \<longrightarrow>
        fst (iterdir env path s) = [''placeholder'']
        \<and> results_cache (snd (iterdir env path s)) = results_cache s"
    by (simp add: iterdir_Some update_search_failed [where e = err])
next
  show "iterdir_search_term env path = Some q \<and> 3 \<le> length q \<and> results_cache s q = None
      \<and> snd (search_everything env q) = Inr (count', results') \<longrightarrow>
        fst (iterdir env path s)
          = map (\<lambda>i. ''/'' @ py_str i) [0..<length (take 100 results')]"
    by (auto simp: iterdir_Some update_search_stored [where count = count' and results = results'])
qed


theorem listing_yields_witness:
  "fst (iterdir env_api_up ''/ab'' s_five) = [''placeholder'']
   \<and> results_cache (snd (iterdir env_api_down ''/abc'' s_init))
         (current_search_term (snd (iterdir env_api_down ''/abc'' s_init))) = None
   \<and> fst (iterdir env_api_down ''/abc'' s_init) = [''placeholder'']
   \<and> results_cache (snd (iterdir env_api_down ''/abc'' s_init)) = results_cache s_init
   \<and> results_cache (snd (iterdir env_api_up ''/abc'' s_init))
         (current_search_term (snd (iterdir env_api_up ''/abc'' s_init)))
       = Some (5, replicate 5 item0)
   \<and> fst (iterdir env_api_up ''/abc'' s_init) = [''/0'', ''/1'', ''/2'', ''/3'', ''/4'']
   \<and> ''placeholder'' \<notin> set (fst (iterdir env_api_up ''/abc'' s_init))"
proof -
  have dec_ab: "iterdir_search_term env_api_up ''/ab'' = Some ''ab''"
    using decode_root [of "''ab''" env_api_up] not_isdigit_letters(2) by simp
  have dec_down: "iterdir_search_term env_api_down ''/abc'' = Some ''abc''"
    using decode_root [of "''abc''" env_api_down] not_isdigit_letters(1) by simp
  have dec_up: "iterdir_search_term env_api_up ''/abc'' = Some ''abc''"
    using decode_root [of "''abc''" env_api_up] not_isdigit_letters(1) by simp
  have miss: "results_cache s_init ''abc'' = None" and len: "3 \<le> length ''abc''"
    by (simp_all add: s_init_def)
  have bad: "snd (search_everything env_api_down ''abc'') = Inl api_down_error"
    by (simp add: search_api_down)
  have ok: "snd (search_everything env_api_up ''abc'') = Inr (5, replicate 5 item0)"
    by (simp add: search_api_up)
  note short = listing_yields [of env_api_up "''/ab''" s_five]
  note failing = listing_yields [of env_api_down "''/abc''" s_init _ _ "''abc''" api_down_error]
  note fresh = listing_yields [of env_api_up "''/abc''" s_init 5 "replicate 5 item0" "''abc''" _
      5 "replicate 5 item0"]
  have st_ab: "snd (iterdir env_api_up ''/ab'' s_five) = s_five\<lparr>current_search_term := ''ab''\<rparr>"
    using short dec_ab by (simp add: update_search_short)
  have a: "fst (iterdir env_api_up ''/ab'' s_five) = [''placeholder'']"
    using short st_ab by simp
  have st_down: "snd (iterdir env_api_down ''/abc'' s_init)
      = s_init\<lparr>current_search_term := ''abc'', searches := searches s_init @ [''abc''],
               backend_calls := backend_calls s_init @ fst (search_everything env_api_down ''abc'')\<rparr>"
    using failing dec_down by (simp add: update_search_failed [OF len miss bad])
  have b: "results_cache (snd (iterdir env_api_down ''/abc'' s_init))
         (current_search_term (snd (iterdir env_api_down ''/abc'' s_init))) = None"
    unfolding st_down by (simp add: s_init_def)
  have c: "fst (iterdir env_api_down ''/abc'' s_init) = [''placeholder'']
       \<and> results_cache (snd (iterdir env_api_down ''/abc'' s_init)) = results_cache s_init"
    using failing dec_down len miss bad by blast
  have st_up: "snd (iterdir env_api_up ''/abc'' s_init)
      = s_init\<lparr>current_search_term := ''abc'', searches := searches s_init @ [''abc''],
               backend_calls := backend_calls s_init @ fst (search_everything env_api_up ''abc''),
               results_cache := (results_cache s_init)(''abc'' \<mapsto> (5, take 100 (replicate 5 item0)))\<rparr>"
    using fresh dec_up by (simp add: update_search_stored [OF len miss ok])
  have d: "results_cache (snd (iterdir env_api_up ''/abc'' s_init))
         (current_search_term (snd (iterdir env_api_up ''/abc'' s_init)))
       = Some (5, replicate 5 item0)"
    unfolding st_up by simp
  have cur: "3 \<le> length (current_search_term (snd (iterdir env_api_up ''/abc'' s_init)))"
    unfolding st_up by simp
  have e: "fst (iterdir env_api_up ''/abc'' s_init)
             = map (\<lambda>i. ''/'' @ py_str i) [0..<length (replicate 5 item0)]
       \<and> ''placeholder'' \<notin> set (fst (iterdir env_api_up ''/abc'' s_init))"
    using fresh cur d by blast
  have f: "fst (iterdir env_api_up ''/abc'' s_init)
             = map (\<lambda>i. ''/'' @ py_str i) [0..<length (take 100 (replicate 5 item0))]"
    using fresh dec_up len miss ok by blast
  have five: "map (\<lambda>i. ''/'' @ py_str i) [0..<length (replicate 5 item0)]
       = [''/0'', ''/1'', ''/2'', ''/3'', ''/4'']"
    using five_children by simp
  from a b c d e f five show ?thesis by simp
qed

text \<open>
  The claim C4 as stated fails on a search that succeeds without a match: the listing
  is empty, with no placeholder in it.
\<close>

theorem empty_listing_counterexample:
  "fst (iterdir env_api_no_match ''/abc'' s_init) = []"
proof -
  have "iterdir_search_term env_api_no_match ''/abc'' = Some ''abc''"
    using decode_root [of "''abc''" env_api_no_match] not_isdigit_letters(1) by simp
  then show ?thesis
    by (simp add: iterdir_Some update_search_stored [where count = 0 and results = "[]"]
        search_api_no_match s_init_def)
qed

subsection \<open>The length of a stored list\<close>






subsection \<open>The date column\<close>







subsection \<open>Activation of a file entry\<close>

lemma complex_index_abc_3: "complex_index ''/abc//3'' = Inr (Some 3)"
  by (simp add: complex_index_def isdigit_def isdigit_char_def is_decimal_def py_int_def
      strip_def isspace_char_def parse_unsigned_def digit_val_def)

lemma get_item_five_3: "get_item_at_index s_five 3 = Some item0"
  by (simp add: get_item_at_index_def s_five_def s_init_def)

text \<open>
  C9, as amended. Let a path address, by its last non-empty segment, an entry of the
  current search term whose real location is not a directory. On a double click the
  listener runs the host's \<^verbatim>\<open>open\<close> command on the URL of the file, returns \<^verbatim>\<open>True\<close>, and
  leaves the state, the last selected file and index with it, as it was. On the command
  \<^verbatim>\<open>open_file\<close> the listener records the path and the index of the entry as the last
  selected ones, sets the pane to the parent directory of the file with a callback that
  places the cursor at the file, and returns the command \<^verbatim>\<open>open_directory\<close> for the
  parent; beside the alerts it asks nothing else of the host, so it opens no file.
\<close>

theorem activation_of_file:
  assumes "path \<noteq> ''placeholder''" and "path \<noteq> ''/placeholder''"
    and "complex_index path = Inr (Some index)"
    and "get_item_at_index s index = Some item"
    and "\<not> isdir env (r_path item)"
  shows "on_doubleclicked env s ''everything://'' path
           = Inr (Some True, [RunCommand ''open'' (as_url env (r_path item))], s)
    \<and> (\<exists>index_str.
          find (\<lambda>p. p \<noteq> []) (rev (split_on CHR ''/'' path)) = Some index_str
          \<and> on_command env s ''open_file'' (Some (''everything://'', path))
              = Inr (RCommand ''open_directory'' (as_url env (dirname env (r_path item))),
                     [ShowAlertParts (split_on CHR ''/'' path),
                      ShowAlert (''Extracted index: '' @ [CHR 0x27] @ index_str @ [CHR 0x27]),
                      SetPathCallback (as_url env (dirname env (r_path item)))
                                      (as_url env (r_path item)),
                      ShowAlert (''Opening parent directory: '' @ dirname env (r_path item))],
                     s\<lparr>last_selected_file := Some (r_path item),
                       last_selected_index := index\<rparr>))"
proof -
  from assms(3) obtain index_str where
    sl: "CHR ''/'' \<in> set path"
    and f: "find (\<lambda>p. p \<noteq> []) (rev (split_on CHR ''/'' path)) = Some index_str"
    and d: "isdigit index_str" and i: "py_int index_str = Some index"
    by (auto simp: complex_index_def split: if_splits option.splits)
  have dc: "on_doubleclicked env s ''everything://'' path
           = Inr (Some True, [RunCommand ''open'' (as_url env (r_path item))], s)"
    using assms by (simp add: on_doubleclicked_def simple_index_eq Let_def)
  have oc: "on_command env s ''open_file'' (Some (''everything://'', path))
              = Inr (RCommand ''open_directory'' (as_url env (dirname env (r_path item))),
                     [ShowAlertParts (split_on CHR ''/'' path),
                      ShowAlert (''Extracted index: '' @ [CHR 0x27] @ index_str @ [CHR 0x27]),
                      SetPathCallback (as_url env (dirname env (r_path item)))
                                      (as_url env (r_path item)),
                      ShowAlert (''Opening parent directory: '' @ dirname env (r_path item))],
                     s\<lparr>last_selected_file := Some (r_path item),
                       last_selected_index := index\<rparr>)"
    using assms(1,2,4,5) sl f d i by (simp add: on_command_def Let_def)
  from dc f oc show ?thesis by blast
qed

theorem activation_of_file_witness:
  "on_doubleclicked env_remote_up s_five ''everything://'' ''/abc//3''
     = Inr (Some True, [RunCommand ''open'' ''file://C:/docs/a.txt''], s_five)
   \<and> (\<exists>index_str.
          on_command env_remote_up s_five ''open_file'' (Some (''everything://'', ''/abc//3''))
            = Inr (RCommand ''open_directory'' ''file://C:/docs'',
                   [ShowAlertParts (split_on CHR ''/'' ''/abc//3''),
                    ShowAlert (''Extracted index: '' @ [CHR 0x27] @ index_str @ [CHR 0x27]),
                    SetPathCallback ''file://C:/docs'' ''file://C:/docs/a.txt'',
                    ShowAlert ''Opening parent directory: C:/docs''],
                   s_five\<lparr>last_selected_file := Some ''C:/docs/a.txt'',
                           last_selected_index := 3\<rparr>))"
proof -
  have np: "''/abc//3'' \<noteq> ''placeholder''" "''/abc//3'' \<noteq> ''/placeholder''" by simp_all
  have nodir: "\<not> isdir env_remote_up (r_path item0)"
    by (simp add: env_remote_up_def env_remote_down_def)
  from activation_of_file [OF np complex_index_abc_3 get_item_five_3 nodir]
  show ?thesis
    by (simp add: env_remote_up_def env_remote_down_def item0_def)
qed

text \<open>
  The claim C9 as stated holds for neither handler. On the file entry \<^verbatim>\<open>/abc//0\<close> the
  double click opens the file but records nothing (the last selected file stays
  \<^const>\<open>None\<close>), and the command \<^verbatim>\<open>open_file\<close> records the entry but goes to the parent
  directory instead of opening the file.
\<close>

theorem activation_counterexample:
  "last_selected_file s_five = None
   \<and> on_doubleclicked env_remote_up s_five ''everything://'' ''/abc//0''
       = Inr (Some True, [RunCommand ''open'' ''file://C:/docs/a.txt''], s_five)
   \<and> on_command env_remote_up s_five ''open_file'' (Some (''everything://'', ''/abc//0''))
       = Inr (RCommand ''open_directory'' ''file://C:/docs'',
              [ShowAlertParts ['''', ''abc'', '''', ''0''],
               ShowAlert (''Extracted index: '' @ [CHR 0x27] @ ''0'' @ [CHR 0x27]),
               SetPathCallback ''file://C:/docs'' ''file://C:/docs/a.txt'',
               ShowAlert ''Opening parent directory: C:/docs''],
              s_five\<lparr>last_selected_file := Some ''C:/docs/a.txt'', last_selected_index := 0\<rparr>)"
proof -
  have i0: "py_int ''0'' = Some 0"
    by (simp add: py_int_def strip_def isspace_char_def parse_unsigned_def is_decimal_def
        digit_val_def)
  have d0: "isdigit ''0''" by (simp add: isdigit_def isdigit_char_def is_decimal_def)
  have e0: "endswith ''/abc//0'' ''/0''" by (simp add: endswith_def)
  have env: "\<not> isdir env_remote_up p" "as_url env_remote_up p = ''file://'' @ p"
    "dirname env_remote_up p = ''C:/docs''" for p
    by (simp_all add: env_remote_up_def env_remote_down_def)
  have "last_selected_file s_five = None" by (simp add: s_five_def s_init_def)
  moreover have "on_doubleclicked env_remote_up s_five ''everything://'' ''/abc//0''
       = Inr (Some True, [RunCommand ''open'' ''file://C:/docs/a.txt''], s_five)"
    by (simp add: on_doubleclicked_def simple_index_def e0 i0 get_item_five_0 env item0_def Let_def)
  moreover have "on_command env_remote_up s_five ''open_file'' (Some (''everything://'', ''/abc//0''))
       = Inr (RCommand ''open_directory'' ''file://C:/docs'',
              [ShowAlertParts ['''', ''abc'', '''', ''0''],
               ShowAlert (''Extracted index: '' @ [CHR 0x27] @ ''0'' @ [CHR 0x27]),
               SetPathCallback ''file://C:/docs'' ''file://C:/docs/a.txt'',
               ShowAlert ''Opening parent directory: C:/docs''],
              s_five\<lparr>last_selected_file := Some ''C:/docs/a.txt'', last_selected_index := 0\<rparr>)"
    by (simp add: on_command_def d0 i0 get_item_five_0 env item0_def Let_def)
  ultimately show ?thesis by simp
qed

end
